theory Spec2Isabelle
  imports Complex_Main
begin

section \<open>Values, exceptions and output\<close>

text \<open>
  The responses of the advertising platform are JSON documents, read by the program as
  Python values: \<open>JNull\<close> is \<^verbatim>\<open>None\<close>, \<open>JNum\<close> covers both \<^verbatim>\<open>int\<close> and \<^verbatim>\<open>float\<close>
  (Python compares them by value), \<open>JObj\<close> is a \<^verbatim>\<open>dict\<close> given by its items, a key being
  looked up at its first binding. Floating-point numbers are modelled as reals: the
  rounding of IEEE arithmetic is not part of the model.
\<close>

datatype json =
    JNull
  | JBool bool
  | JNum real
  | JStr string
  | JList "json list"
  | JObj "(string \<times> json) list"

text \<open>
  The message of an exception is an f-string: a sequence of literal pieces and of
  formatted values, \<open>Str j\<close> standing for Python's \<^verbatim>\<open>str(j)\<close>.
\<close>

datatype frag = Lit string | Str json

type_synonym message = "frag list"

text \<open>
  The exceptions the program can raise. All of them are subclasses of \<^verbatim>\<open>Exception\<close>;
  only \<open>TikTokAPIError\<close> is raised by the program itself, the others by the interpreter.
  \<open>RecursionError\<close> is raised when the call depth passes the interpreter's limit.
\<close>

datatype error =
    TikTokAPIError message
  | RecursionError
  | KeyError
  | AttributeError
  | TypeError
  | ValueError
  | ZeroDivisionError

fun is_TikTokAPIError :: "error \<Rightarrow> bool" where
  "is_TikTokAPIError (TikTokAPIError m) = True"
| "is_TikTokAPIError e = False"

text \<open>\<^verbatim>\<open>class Campaign\<close> of \<^verbatim>\<open>tik_tok_api.py\<close>. The identifier and the budget are whatever
  the platform sent; the budget is \<open>JNull\<close> when it is not known.\<close>

record Campaign =
  campaign_id :: json
  spend :: real
  total_complete_payment_rate :: real
  budget :: json

text \<open>The lines the program prints, one constructor per \<^verbatim>\<open>print\<close> statement.\<close>

datatype line =
    RetryingLine error int int int
  | AccessTokenLine json
  | AdvertiserValidLine json
  | ValidIdsLine json
  | FailedTokenLine error
  | NoCampaignsLine
  | FailedPerformanceLine error
  | SkippingLine json
  | UpdatedLine json json real
  | NoChangeLine json real
  | ErrorUpdatingLine json error
  | UnexpectedErrorLine json error

text \<open>An invocation of one of the three budget functions of \<^verbatim>\<open>utils.py\<close>, with its
  arguments.\<close>

datatype policy_call =
    CalculateRoas Campaign
  | CalculateAdjustmentFactor real
  | CalculateNewBudget json real

text \<open>
  The state a run threads through its calls: the fields of the one
  \<^verbatim>\<open>TikTokMarketingAPI\<close> object (\<open>self_access_token\<close> is \<^verbatim>\<open>self._access_token\<close>, with
  \<open>JNull\<close> for \<^verbatim>\<open>None\<close>; \<open>self_token_expiry\<close> is \<^verbatim>\<open>self._token_expiry\<close>, in seconds),
  the clock in seconds (\<^verbatim>\<open>time.sleep\<close> advances it), the number of HTTP requests sent
  so far, the lines printed so far, and the record of the budget functions invoked so far.
\<close>

record world =
  self_app_id :: string
  self_auth_code :: string
  self_secret :: string
  self_ad_id :: string
  self_access_token :: json
  self_token_expiry :: "int option"
  clock :: int
  requests_made :: nat
  stdout :: "line list"
  policy_calls :: "policy_call list"

definition print_line :: "line \<Rightarrow> world \<Rightarrow> world" where
  "print_line l w = w\<lparr>stdout := stdout w @ [l]\<rparr>"

text \<open>\<^verbatim>\<open>time.sleep(secs)\<close> raises \<^verbatim>\<open>ValueError\<close> on a negative length.\<close>

definition sleep :: "int \<Rightarrow> world \<Rightarrow> (error + unit) \<times> world" where
  "sleep secs w =
     (if secs < 0 then (Inl ValueError, w) else (Inr (), w\<lparr>clock := clock w + secs\<rparr>))"

section \<open>The collaborators\<close>

text \<open>
  What the program uses and does not define. The HTTP transport (\<^verbatim>\<open>requests\<close>): given how
  many requests the run has sent before, and the method, the endpoint and the
  \<^verbatim>\<open>Access-Token\<close> header of this one, it answers with a \<^verbatim>\<open>RequestException\<close> and its text
  (no connection, an error status at \<^verbatim>\<open>raise_for_status\<close>, a body that is not JSON) or with
  the decoded body. The query parameters and the JSON body of a request are not modelled.
  Python's \<^verbatim>\<open>float\<close> on a string: \<open>None\<close> when it raises \<^verbatim>\<open>ValueError\<close>.
\<close>

datatype request = Request string string json

datatype http_result = RequestException string | Response json

record env =
  transport :: "nat \<Rightarrow> request \<Rightarrow> http_result"
  float_of_str :: "string \<Rightarrow> real option"

section \<open>Python's operations on the values\<close>

definition and_then :: "error + 'a \<Rightarrow> ('a \<Rightarrow> error + 'b) \<Rightarrow> error + 'b" where
  "and_then r f = (case r of Inl e \<Rightarrow> Inl e | Inr v \<Rightarrow> f v)"

text \<open>\<^verbatim>\<open>d.get(key, default)\<close>: only a \<^verbatim>\<open>dict\<close> has the method.\<close>

definition dict_get :: "json \<Rightarrow> string \<Rightarrow> json \<Rightarrow> error + json" where
  "dict_get d key dflt =
     (case d of
        JObj items \<Rightarrow> Inr (case map_of items key of None \<Rightarrow> dflt | Some v \<Rightarrow> v)
      | _ \<Rightarrow> Inl AttributeError)"

text \<open>\<^verbatim>\<open>d[key]\<close> with a string key.\<close>

definition subscript :: "json \<Rightarrow> string \<Rightarrow> error + json" where
  "subscript d key =
     (case d of
        JObj items \<Rightarrow> (case map_of items key of None \<Rightarrow> Inl KeyError | Some v \<Rightarrow> Inr v)
      | _ \<Rightarrow> Inl TypeError)"

text \<open>\<^verbatim>\<open>for x in v\<close>: the elements of a list, the keys of a \<^verbatim>\<open>dict\<close>, the characters of a
  string.\<close>

definition iterate :: "json \<Rightarrow> error + json list" where
  "iterate v =
     (case v of
        JList xs \<Rightarrow> Inr xs
      | JObj items \<Rightarrow> Inr (map JStr (remdups (map fst items)))
      | JStr s \<Rightarrow> Inr (map (\<lambda>c. JStr [c]) s)
      | _ \<Rightarrow> Inl TypeError)"

text \<open>\<^verbatim>\<open>v == 0\<close>: \<^verbatim>\<open>False\<close> is equal to 0 as well.\<close>

definition eq_zero :: "json \<Rightarrow> bool" where
  "eq_zero v = (case v of JNum x \<Rightarrow> x = 0 | JBool b \<Rightarrow> \<not> b | _ \<Rightarrow> False)"

text \<open>The number a value is in arithmetic, when it is one.\<close>

definition number_of :: "json \<Rightarrow> real option" where
  "number_of v =
     (case v of JNum x \<Rightarrow> Some x | JBool b \<Rightarrow> Some (if b then 1 else 0) | _ \<Rightarrow> None)"

text \<open>\<^verbatim>\<open>float(v)\<close>.\<close>

definition py_float :: "env \<Rightarrow> json \<Rightarrow> error + real" where
  "py_float E v =
     (case v of
        JNum x \<Rightarrow> Inr x
      | JBool b \<Rightarrow> Inr (if b then 1 else 0)
      | JStr s \<Rightarrow> (case float_of_str E s of None \<Rightarrow> Inl ValueError | Some x \<Rightarrow> Inr x)
      | _ \<Rightarrow> Inl TypeError)"

fun is_substring :: "string \<Rightarrow> string \<Rightarrow> bool" where
  "is_substring s [] = (s = [])"
| "is_substring s (c # cs) = (take (length s) (c # cs) = s \<or> is_substring s cs)"

text \<open>\<^verbatim>\<open>s in v\<close> for a string \<open>s\<close>.\<close>

definition contains :: "json \<Rightarrow> string \<Rightarrow> error + bool" where
  "contains v s =
     (case v of
        JList xs \<Rightarrow> Inr (JStr s \<in> set xs)
      | JObj items \<Rightarrow> Inr (s \<in> fst ` set items)
      | JStr t \<Rightarrow> Inr (is_substring s t)
      | _ \<Rightarrow> Inl TypeError)"

text \<open>
  The keys of a \<^verbatim>\<open>dict\<close>: a list or a \<^verbatim>\<open>dict\<close> cannot be one (\<^verbatim>\<open>TypeError\<close>), and
  \<^verbatim>\<open>True\<close> and \<^verbatim>\<open>False\<close> are the keys 1 and 0.
\<close>

definition hashable :: "json \<Rightarrow> bool" where
  "hashable v = (case v of JList xs \<Rightarrow> False | JObj items \<Rightarrow> False | _ \<Rightarrow> True)"

definition dict_key :: "json \<Rightarrow> json" where
  "dict_key v = (case v of JBool b \<Rightarrow> JNum (if b then 1 else 0) | _ \<Rightarrow> v)"

text \<open>\<^verbatim>\<open>campaign_budgets.get(key)\<close>.\<close>

definition budgets_get :: "(json \<rightharpoonup> json) \<Rightarrow> json \<Rightarrow> error + json" where
  "budgets_get campaign_budgets key =
     (if hashable key
      then Inr (case campaign_budgets (dict_key key) of None \<Rightarrow> JNull | Some v \<Rightarrow> v)
      else Inl TypeError)"

text \<open>\<^verbatim>\<open>except TikTokAPIError as e: raise TikTokAPIError(f"...{str(e)}")\<close>: any other
  exception passes.\<close>

definition reraise :: "message \<Rightarrow> error + 'a \<Rightarrow> error + 'a" where
  "reraise prefix r =
     (case r of Inl (TikTokAPIError m) \<Rightarrow> Inl (TikTokAPIError (prefix @ m)) | _ \<Rightarrow> r)"

section \<open>config.py\<close>

text \<open>The constants of the budget policy and the advertiser. The identifiers of the
  application, which the file reads from the environment, are fields of the state.\<close>

definition ADVERTISER_ID :: string where
  "ADVERTISER_ID = ''7041312028410778178''"

definition TARGET_ROAS :: real where
  "TARGET_ROAS = 1.5"

definition MAX_ADJUSTMENT :: real where
  "MAX_ADJUSTMENT = 0.75"

definition MIN_BUDGET :: real where
  "MIN_BUDGET = 50"

definition DAYS :: int where
  "DAYS = 30"

definition MIN_SPEND :: real where
  "MIN_SPEND = 0"

definition MIN_PAYMENT_RATE :: real where
  "MIN_PAYMENT_RATE = 0"

section \<open>utils.py\<close>

text \<open>\<^verbatim>\<open>campaign.total_complete_payment_rate / campaign.spend\<close>: a division by zero
  raises.\<close>

definition calculate_roas :: "Campaign \<Rightarrow> error + real" where
  "calculate_roas campaign =
     (if spend campaign = 0 then Inl ZeroDivisionError
      else Inr (total_complete_payment_rate campaign / spend campaign))"

definition calculate_adjustment_factor :: "real \<Rightarrow> real" where
  "calculate_adjustment_factor roas =
     (let adjustment = (roas - TARGET_ROAS) / TARGET_ROAS
      in max (min adjustment MAX_ADJUSTMENT) (- MAX_ADJUSTMENT))"

definition calculate_new_budget :: "real \<Rightarrow> real \<Rightarrow> real" where
  "calculate_new_budget current_budget adjustment_factor =
     (let new_budget = current_budget * (1 + adjustment_factor)
      in max new_budget MIN_BUDGET)"

text \<open>
  \<^verbatim>\<open>retry\<close>: the \<^verbatim>\<open>while\<close> loop, from the value \<open>attempt\<close> of its counter. \<open>func\<close> is the
  operation with its arguments bound; \<open>exception_types\<close> decides which exceptions the
  \<^verbatim>\<open>except\<close> clause catches. The result is \<open>Some\<close> of what \<open>func\<close> returned, or \<open>None\<close>
  when the loop ends without a \<^verbatim>\<open>return\<close>. An exception of \<^verbatim>\<open>time.sleep\<close> leaves the
  handler as it is raised.
\<close>

function retry_loop ::
  "(world \<Rightarrow> (error + 'a) \<times> world) \<Rightarrow> int \<Rightarrow> int \<Rightarrow> (error \<Rightarrow> bool) \<Rightarrow> int \<Rightarrow> world
     \<Rightarrow> (error + 'a option) \<times> world" where
  "retry_loop func max_retries delay exception_types attempt w =
     (if attempt \<le> max_retries then
        (case func w of
           (Inr v, w1) \<Rightarrow> (Inr (Some v), w1)
         | (Inl e, w1) \<Rightarrow>
             if exception_types e then
               (if attempt + 1 > max_retries then (Inl e, w1)
                else
                  (case sleep delay
                          (print_line (RetryingLine e delay (attempt + 1) max_retries) w1) of
                     (Inl e2, w2) \<Rightarrow> (Inl e2, w2)
                   | (Inr u, w2) \<Rightarrow>
                       retry_loop func max_retries delay exception_types (attempt + 1) w2))
             else (Inl e, w1))
      else (Inr None, w))"
  by pat_completeness auto
termination
  by (relation "measure (\<lambda>(func, max_retries, delay, exception_types, attempt, w).
        nat (max_retries + 1 - attempt))") auto

declare retry_loop.simps [simp del]

definition retry ::
  "(world \<Rightarrow> (error + 'a) \<times> world) \<Rightarrow> int \<Rightarrow> int \<Rightarrow> (error \<Rightarrow> bool) \<Rightarrow> world
     \<Rightarrow> (error + 'a option) \<times> world" where
  "retry func max_retries delay exception_types w =
     retry_loop func max_retries delay exception_types 0 w"

section \<open>tik_tok_api.py\<close>

text \<open>The condition of the \<^verbatim>\<open>access_token\<close> property: no token, no expiry, or the expiry
  reached.\<close>

definition token_missing_or_expired :: "world \<Rightarrow> bool" where
  "token_missing_or_expired w =
     (self_access_token w = JNull \<or>
      (case self_token_expiry w of None \<Rightarrow> True | Some expiry \<Rightarrow> expiry \<le> clock w))"

text \<open>
  \<^verbatim>\<open>get_access_token\<close>, from the response on (the \<^verbatim>\<open>try\<close> block after the request): the
  \<^verbatim>\<open>dict\<close> it returns, given by its items.
\<close>

definition token_data_of :: "string \<Rightarrow> json \<Rightarrow> error + (string \<times> json) list" where
  "token_data_of ad_id data =
     and_then (dict_get data ''code'' JNull) (\<lambda>code.
       if eq_zero code then
         and_then (subscript data ''data'') (\<lambda>d.
         and_then (dict_get d ''access_token'' JNull) (\<lambda>access_token.
         and_then (dict_get d ''advertiser_ids'' (JList [])) (\<lambda>advertiser_ids.
         and_then (contains advertiser_ids ad_id) (\<lambda>ad_id_validity.
           Inr [(''access_token'', access_token),
                (''advertiser_ids'', advertiser_ids),
                (''ad_id_validity'', JBool ad_id_validity)]))))
       else
         and_then (dict_get data ''message'' (JStr ''Unknown error'')) (\<lambda>error_msg.
           Inl (TikTokAPIError
                  [Lit ''API error: '', Str error_msg, Lit '' (code: '', Str code, Lit '')''])))"

text \<open>
  The \<^verbatim>\<open>access_token\<close> property, \<^verbatim>\<open>_make_request\<close> and \<^verbatim>\<open>get_access_token\<close> call one
  another. \<open>depth\<close> is the number of nested calls the interpreter still allows: a call
  at depth 0 raises \<^verbatim>\<open>RecursionError\<close>. \<^verbatim>\<open>_make_request\<close> reads the property before its
  \<^verbatim>\<open>try\<close> block, so an exception of the property passes as it is. A token dictionary that
  is empty or has no key \<^verbatim>\<open>access_token\<close> is one where the lookup of the key finds nothing.
  No caller passes \<^verbatim>\<open>headers\<close>; \<^verbatim>\<open>params\<close> and \<^verbatim>\<open>json_data\<close> are the parts of a request
  that are not modelled.
\<close>

fun access_token :: "nat \<Rightarrow> env \<Rightarrow> world \<Rightarrow> (error + json) \<times> world"
  and make_request :: "nat \<Rightarrow> env \<Rightarrow> string \<Rightarrow> string \<Rightarrow> world \<Rightarrow> (error + json) \<times> world"
  and get_access_token :: "nat \<Rightarrow> env \<Rightarrow> world \<Rightarrow> (error + (string \<times> json) list) \<times> world"
where
  "access_token 0 E w = (Inl RecursionError, w)"
| "access_token (Suc depth) E w =
     (if token_missing_or_expired w then
        (case get_access_token depth E w of
           (Inl e, w1) \<Rightarrow> (Inl e, w1)
         | (Inr token_data, w1) \<Rightarrow>
             (case map_of token_data ''access_token'' of
                None \<Rightarrow> (Inl (TikTokAPIError [Lit ''Failed to obtain access token'']), w1)
              | Some token \<Rightarrow>
                  (Inr token,
                   w1\<lparr>self_access_token := token,
                      self_token_expiry := Some (clock w1 + 3600)\<rparr>)))
      else (Inr (self_access_token w), w))"
| "make_request 0 E method endpoint w = (Inl RecursionError, w)"
| "make_request (Suc depth) E method endpoint w =
     (case access_token depth E w of
        (Inl e, w1) \<Rightarrow> (Inl e, w1)
      | (Inr token, w1) \<Rightarrow>
          (case transport E (requests_made w1) (Request method endpoint token) of
             RequestException text \<Rightarrow>
               (Inl (TikTokAPIError [Lit ''API request failed: '', Lit text]),
                w1\<lparr>requests_made := Suc (requests_made w1)\<rparr>)
           | Response body \<Rightarrow> (Inr body, w1\<lparr>requests_made := Suc (requests_made w1)\<rparr>)))"
| "get_access_token 0 E w = (Inl RecursionError, w)"
| "get_access_token (Suc depth) E w =
     (case make_request depth E ''GET'' ''oauth2/access_token/'' w of
        (Inl e, w1) \<Rightarrow> (reraise [Lit ''Failed to get access token: ''] (Inl e), w1)
      | (Inr data, w1) \<Rightarrow>
          (reraise [Lit ''Failed to get access token: ''] (token_data_of (self_ad_id w1) data),
           w1))"

text \<open>\<^verbatim>\<open>get_campaigns\<close>, from the response on, and as a whole.\<close>

definition campaign_list_of :: "json \<Rightarrow> error + json" where
  "campaign_list_of data =
     and_then (dict_get data ''code'' JNull) (\<lambda>code.
       if eq_zero code then
         and_then (dict_get data ''data'' (JObj [])) (\<lambda>d. dict_get d ''list'' (JList []))
       else
         and_then (dict_get data ''message'' (JStr ''Unknown error'')) (\<lambda>error_msg.
           Inl (TikTokAPIError
                  [Lit ''API error: '', Str error_msg, Lit '' (code: '', Str code, Lit '')''])))"

definition get_campaigns :: "nat \<Rightarrow> env \<Rightarrow> world \<Rightarrow> (error + json) \<times> world" where
  "get_campaigns depth E w =
     (case make_request depth E ''GET'' ''campaign/get/'' w of
        (Inl e, w1) \<Rightarrow> (reraise [Lit ''Failed to get campaigns: ''] (Inl e), w1)
      | (Inr data, w1) \<Rightarrow>
          (reraise [Lit ''Failed to get campaigns: ''] (campaign_list_of data), w1))"

text \<open>The two comprehensions of \<^verbatim>\<open>get_campaign_performance\<close>: the identifiers, and the
  \<^verbatim>\<open>dict\<close> from identifier to budget, where a later campaign replaces an earlier one of
  the same identifier.\<close>

fun campaign_ids_of :: "json list \<Rightarrow> error + json list" where
  "campaign_ids_of [] = Inr []"
| "campaign_ids_of (c # cs) =
     (case subscript c ''campaign_id'' of
        Inl e \<Rightarrow> Inl e
      | Inr k \<Rightarrow> (case campaign_ids_of cs of Inl e \<Rightarrow> Inl e | Inr ks \<Rightarrow> Inr (k # ks)))"

fun campaign_budgets_of :: "(json \<rightharpoonup> json) \<Rightarrow> json list \<Rightarrow> error + (json \<rightharpoonup> json)" where
  "campaign_budgets_of campaign_budgets [] = Inr campaign_budgets"
| "campaign_budgets_of campaign_budgets (c # cs) =
     (case subscript c ''campaign_id'' of
        Inl e \<Rightarrow> Inl e
      | Inr k \<Rightarrow>
          (case subscript c ''budget'' of
             Inl e \<Rightarrow> Inl e
           | Inr v \<Rightarrow>
               if hashable k then campaign_budgets_of (campaign_budgets(dict_key k \<mapsto> v)) cs
               else Inl TypeError))"

text \<open>What the loop over \<^verbatim>\<open>stats_list\<close> reads of one row, as the \<^verbatim>\<open>Campaign\<close> the row
  gives when it passes the test.\<close>

definition stat_campaign :: "env \<Rightarrow> (json \<rightharpoonup> json) \<Rightarrow> json \<Rightarrow> error + Campaign" where
  "stat_campaign E campaign_budgets stat =
     and_then (dict_get stat ''dimensions'' (JObj [])) (\<lambda>dimensions.
     and_then (dict_get stat ''metrics'' (JObj [])) (\<lambda>metrics.
     and_then (dict_get dimensions ''campaign_id'' JNull) (\<lambda>cid.
     and_then (and_then (dict_get metrics ''spend'' (JNum 0)) (py_float E)) (\<lambda>sp.
     and_then (and_then (dict_get metrics ''total_complete_payment_rate'' (JNum 0)) (py_float E))
       (\<lambda>payment_rate.
     and_then (budgets_get campaign_budgets cid) (\<lambda>b.
       Inr \<lparr>campaign_id = cid, spend = sp,
            total_complete_payment_rate = payment_rate, budget = b\<rparr>))))))"

text \<open>The loop over \<^verbatim>\<open>stats_list\<close>, from the campaigns appended so far.\<close>

fun valid_campaigns_loop ::
  "env \<Rightarrow> (json \<rightharpoonup> json) \<Rightarrow> real \<Rightarrow> real \<Rightarrow> Campaign list \<Rightarrow> json list
     \<Rightarrow> error + Campaign list" where
  "valid_campaigns_loop E campaign_budgets min_spend min_payment_rate valid_campaigns [] =
     Inr valid_campaigns"
| "valid_campaigns_loop E campaign_budgets min_spend min_payment_rate valid_campaigns
     (stat # stats) =
     (case stat_campaign E campaign_budgets stat of
        Inl e \<Rightarrow> Inl e
      | Inr c \<Rightarrow>
          valid_campaigns_loop E campaign_budgets min_spend min_payment_rate
            (if spend c > min_spend \<and> total_complete_payment_rate c > min_payment_rate
             then valid_campaigns @ [c] else valid_campaigns)
            stats)"

text \<open>\<^verbatim>\<open>get_campaign_performance\<close>, from the response of the report on.\<close>

definition report_campaigns ::
  "env \<Rightarrow> (json \<rightharpoonup> json) \<Rightarrow> real \<Rightarrow> real \<Rightarrow> json \<Rightarrow> error + Campaign list" where
  "report_campaigns E campaign_budgets min_spend min_payment_rate data =
     and_then (dict_get data ''code'' JNull) (\<lambda>code.
       if \<not> eq_zero code then
         and_then (dict_get data ''message'' (JStr ''Unknown error'')) (\<lambda>error_msg.
           Inl (TikTokAPIError [Lit ''API error: '', Str error_msg]))
       else
         and_then (dict_get data ''data'' (JObj [])) (\<lambda>d.
         and_then (dict_get d ''list'' (JList [])) (\<lambda>stats_list.
         and_then (iterate stats_list) (\<lambda>stats.
           valid_campaigns_loop E campaign_budgets min_spend min_payment_rate [] stats))))"

text \<open>\<^verbatim>\<open>get_campaign_performance\<close>. The dates computed from \<open>days\<close> only go into the body of
  the report request.\<close>

definition get_campaign_performance ::
  "nat \<Rightarrow> env \<Rightarrow> int \<Rightarrow> real \<Rightarrow> real \<Rightarrow> world \<Rightarrow> (error + Campaign list) \<times> world" where
  "get_campaign_performance depth E days min_spend min_payment_rate w =
     (case get_campaigns depth E w of
        (Inl e, w1) \<Rightarrow> (reraise [Lit ''Failed to get campaign performance: ''] (Inl e), w1)
      | (Inr campaigns, w1) \<Rightarrow>
          (case and_then (iterate campaigns) (\<lambda>cs.
                and_then (campaign_ids_of cs) (\<lambda>campaign_ids.
                and_then (campaign_budgets_of Map.empty cs) (\<lambda>campaign_budgets.
                  Inr (campaign_ids, campaign_budgets)))) of
             Inl e \<Rightarrow> (reraise [Lit ''Failed to get campaign performance: ''] (Inl e), w1)
           | Inr (campaign_ids, campaign_budgets) \<Rightarrow>
               if campaign_ids = [] then (Inr [], w1)
               else
                 (case make_request depth E ''POST'' ''report/integrated/get/'' w1 of
                    (Inl e, w2) \<Rightarrow>
                      (reraise [Lit ''Failed to get campaign performance: ''] (Inl e), w2)
                  | (Inr data, w2) \<Rightarrow>
                      (reraise [Lit ''Failed to get campaign performance: '']
                         (report_campaigns E campaign_budgets min_spend min_payment_rate data),
                       w2))))"

text \<open>\<^verbatim>\<open>update_campaign_budget\<close>.\<close>

definition update_campaign_budget ::
  "nat \<Rightarrow> env \<Rightarrow> json \<Rightarrow> real \<Rightarrow> world \<Rightarrow> (error + json) \<times> world" where
  "update_campaign_budget depth E cid new_budget w =
     (case make_request depth E ''POST'' ''campaign/update/'' w of
        (Inl e, w1) \<Rightarrow>
          (reraise [Lit ''Error updating campaign '', Str cid, Lit '' budget: ''] (Inl e), w1)
      | (Inr data, w1) \<Rightarrow>
          (reraise [Lit ''Error updating campaign '', Str cid, Lit '' budget: '']
             (and_then (dict_get data ''code'' JNull) (\<lambda>code.
                if \<not> eq_zero code then
                  and_then (dict_get data ''message'' (JStr ''Unknown error'')) (\<lambda>error_msg.
                    Inl (TikTokAPIError
                           [Lit ''Failed to update campaign budget: '', Str error_msg]))
                else Inr data)),
           w1))"

section \<open>main.py\<close>

definition note_call :: "policy_call \<Rightarrow> world \<Rightarrow> world" where
  "note_call c w = w\<lparr>policy_calls := policy_calls w @ [c]\<rparr>"

text \<open>
  The \<^verbatim>\<open>try\<close> block of the loop over the campaigns, for one campaign. Each call of a
  budget function is noted when it is made. A budget that is not a number makes the
  multiplication in \<^verbatim>\<open>calculate_new_budget\<close> raise \<^verbatim>\<open>TypeError\<close>.
\<close>

definition process_campaign_body ::
  "nat \<Rightarrow> env \<Rightarrow> Campaign \<Rightarrow> world \<Rightarrow> (error + unit) \<times> world" where
  "process_campaign_body depth E campaign w =
     (let w1 = note_call (CalculateRoas campaign) w in
      case calculate_roas campaign of
        Inl e \<Rightarrow> (Inl e, w1)
      | Inr roas \<Rightarrow>
          (let w2 = note_call (CalculateAdjustmentFactor roas) w1;
               adjustment_factor = calculate_adjustment_factor roas;
               current_budget = budget campaign
           in if current_budget = JNull
              then (Inr (), print_line (SkippingLine (campaign_id campaign)) w2)
              else
                (let w3 = note_call (CalculateNewBudget current_budget adjustment_factor) w2 in
                 case number_of current_budget of
                   None \<Rightarrow> (Inl TypeError, w3)
                 | Some b \<Rightarrow>
                     (let new_budget = calculate_new_budget b adjustment_factor in
                      if new_budget \<noteq> b then
                        (case retry
                                (update_campaign_budget depth E (campaign_id campaign) new_budget)
                                2 300 is_TikTokAPIError w3 of
                           (Inl e, w4) \<Rightarrow> (Inl e, w4)
                         | (Inr r, w4) \<Rightarrow>
                             (Inr (),
                              print_line
                                (UpdatedLine (campaign_id campaign) current_budget new_budget)
                                w4))
                      else
                        (Inr (),
                         print_line (NoChangeLine (campaign_id campaign) roas) w3)))))"

text \<open>The body of the loop with its two handlers, \<^verbatim>\<open>except TikTokAPIError\<close> and
  \<^verbatim>\<open>except Exception\<close>, and the loop.\<close>

definition process_campaign :: "nat \<Rightarrow> env \<Rightarrow> Campaign \<Rightarrow> world \<Rightarrow> world" where
  "process_campaign depth E campaign w =
     (case process_campaign_body depth E campaign w of
        (Inr u, w1) \<Rightarrow> w1
      | (Inl e, w1) \<Rightarrow>
          if is_TikTokAPIError e
          then print_line (ErrorUpdatingLine (campaign_id campaign) e) w1
          else print_line (UnexpectedErrorLine (campaign_id campaign) e) w1)"

fun process_campaigns :: "nat \<Rightarrow> env \<Rightarrow> Campaign list \<Rightarrow> world \<Rightarrow> world" where
  "process_campaigns depth E [] w = w"
| "process_campaigns depth E (campaign # campaigns) w =
     process_campaigns depth E campaigns (process_campaign depth E campaign w)"

text \<open>\<^verbatim>\<open>main\<close> from its step 2 on: the campaigns are fetched, then processed. An exception
  that is not a \<^verbatim>\<open>TikTokAPIError\<close> ends the run.\<close>

definition main_from_step2 :: "nat \<Rightarrow> env \<Rightarrow> world \<Rightarrow> (error + unit) \<times> world" where
  "main_from_step2 depth E w =
     (case retry (get_campaign_performance depth E DAYS MIN_SPEND MIN_PAYMENT_RATE)
             2 300 is_TikTokAPIError w of
        (Inl e, w1) \<Rightarrow>
          if is_TikTokAPIError e then (Inr (), print_line (FailedPerformanceLine e) w1)
          else (Inl e, w1)
      | (Inr None, w1) \<Rightarrow> (Inr (), print_line NoCampaignsLine w1)
      | (Inr (Some campaigns), w1) \<Rightarrow>
          if campaigns = [] then (Inr (), print_line NoCampaignsLine w1)
          else (Inr (), process_campaigns depth E campaigns w1))"

text \<open>
  \<^verbatim>\<open>main\<close>: the client is built without a token, the token is fetched and its three
  entries printed, then step 2 follows. The identifiers of the application come from
  the state the run starts in.
\<close>

definition main :: "nat \<Rightarrow> env \<Rightarrow> world \<Rightarrow> (error + unit) \<times> world" where
  "main depth E w0 =
     (let w = w0\<lparr>self_ad_id := ADVERTISER_ID, self_access_token := JNull,
                 self_token_expiry := None\<rparr> in
      case retry (get_access_token depth E) 2 300 is_TikTokAPIError w of
        (Inl e, w1) \<Rightarrow>
          if is_TikTokAPIError e then (Inr (), print_line (FailedTokenLine e) w1)
          else (Inl e, w1)
      | (Inr None, w1) \<Rightarrow> (Inl TypeError, w1)
      | (Inr (Some token_info), w1) \<Rightarrow>
          (case map_of token_info ''access_token'' of
             None \<Rightarrow> (Inl KeyError, w1)
           | Some token \<Rightarrow>
               (let w2 = print_line (AccessTokenLine token) w1 in
                case map_of token_info ''ad_id_validity'' of
                  None \<Rightarrow> (Inl KeyError, w2)
                | Some validity \<Rightarrow>
                    (let w3 = print_line (AdvertiserValidLine validity) w2 in
                     case map_of token_info ''advertiser_ids'' of
                       None \<Rightarrow> (Inl KeyError, w3)
                     | Some ids \<Rightarrow>
                         main_from_step2 depth E (print_line (ValidIdsLine ids) w3)))))"

section \<open>Notions the properties are stated with\<close>

text \<open>The campaign a status line of the loop is about; the status lines among the lines
  printed, by their campaigns.\<close>

fun status_of :: "line \<Rightarrow> json option" where
  "status_of (SkippingLine cid) = Some cid"
| "status_of (UpdatedLine cid old new) = Some cid"
| "status_of (NoChangeLine cid roas) = Some cid"
| "status_of (ErrorUpdatingLine cid e) = Some cid"
| "status_of (UnexpectedErrorLine cid e) = Some cid"
| "status_of l = None"

definition statuses :: "line list \<Rightarrow> json list" where
  "statuses ls = List.map_filter status_of ls"

text \<open>What the state of a run must guarantee of a call of a budget function: a positive
  spend for \<open>calculate_roas\<close>, a known budget for \<open>calculate_new_budget\<close>.\<close>

fun policy_call_ok :: "policy_call \<Rightarrow> bool" where
  "policy_call_ok (CalculateRoas c) = (0 < spend c)"
| "policy_call_ok (CalculateAdjustmentFactor roas) = True"
| "policy_call_ok (CalculateNewBudget b factor) = (b \<noteq> JNull)"

text \<open>The test of the loop over \<^verbatim>\<open>stats_list\<close>, on what a row gave.\<close>

definition passes :: "real \<Rightarrow> real \<Rightarrow> error + Campaign \<Rightarrow> bool" where
  "passes min_spend min_payment_rate r =
     (case r of
        Inl e \<Rightarrow> False
      | Inr c \<Rightarrow> spend c > min_spend \<and> total_complete_payment_rate c > min_payment_rate)"

text \<open>Two states of which the second has the output of the first: the same lines
  printed and the same calls of the budget functions noted.\<close>

definition same_output :: "world \<Rightarrow> world \<Rightarrow> bool" where
  "same_output w w' = (stdout w' = stdout w \<and> policy_calls w' = policy_calls w)"

text \<open>The state in which the loop of \<^verbatim>\<open>main\<close> calls \<^verbatim>\<open>update_campaign_budget\<close> for a
  campaign of the given ROAS, when it reaches the campaign in the state \<open>w\<close>.\<close>

definition update_state :: "Campaign \<Rightarrow> real \<Rightarrow> world \<Rightarrow> world" where
  "update_state c roas w =
     note_call (CalculateNewBudget (budget c) (calculate_adjustment_factor roas))
       (note_call (CalculateAdjustmentFactor roas) (note_call (CalculateRoas c) w))"

text \<open>
  The state after one failed attempt of the loop (the operation has raised \<open>e\<close>, the
  line is printed and the delay slept), and after \<open>k\<close> of them in a row, the first
  at the counter value \<open>attempt\<close>.
\<close>

definition failed_attempt ::
  "(world \<Rightarrow> (error + 'a) \<times> world) \<Rightarrow> int \<Rightarrow> int \<Rightarrow> int \<Rightarrow> world \<Rightarrow> world" where
  "failed_attempt func max_retries delay attempt w =
     (case func w of
        (Inl e, w1) \<Rightarrow>
          snd (sleep delay (print_line (RetryingLine e delay (attempt + 1) max_retries) w1))
      | (Inr v, w1) \<Rightarrow> w1)"

fun failed_attempts ::
  "(world \<Rightarrow> (error + 'a) \<times> world) \<Rightarrow> int \<Rightarrow> int \<Rightarrow> int \<Rightarrow> nat \<Rightarrow> world \<Rightarrow> world" where
  "failed_attempts func max_retries delay attempt 0 w = w"
| "failed_attempts func max_retries delay attempt (Suc k) w =
     failed_attempts func max_retries delay (attempt + 1) k
       (failed_attempt func max_retries delay attempt w)"

section \<open>Sample inputs\<close>

text \<open>The state of a run that has just built its client (no token, nothing printed),
  and the same state with a token that expires after an hour.\<close>

definition fresh_world :: world where
  "fresh_world =
     \<lparr>self_app_id = ''app'', self_auth_code = ''code'', self_secret = ''secret'',
      self_ad_id = ADVERTISER_ID, self_access_token = JNull, self_token_expiry = None,
      clock = 0, requests_made = 0, stdout = [], policy_calls = []\<rparr>"

definition cached_world :: world where
  "cached_world =
     fresh_world\<lparr>self_access_token := JStr ''cached'', self_token_expiry := Some 3600\<rparr>"

text \<open>An operation that prints a line and raises \<^verbatim>\<open>ValueError\<close>, every time.\<close>

definition always_fails :: "world \<Rightarrow> (error + unit) \<times> world" where
  "always_fails w = (Inl ValueError, print_line NoCampaignsLine w)"

text \<open>A platform whose token endpoint answers with the success code and no token.\<close>

definition tokenless_response :: json where
  "tokenless_response =
     JObj [(''code'', JNum 0), (''message'', JStr ''OK''),
           (''data'', JObj [(''advertiser_ids'', JList [JStr ADVERTISER_ID])])]"

definition tokenless_env :: env where
  "tokenless_env =
     \<lparr>transport = (\<lambda>i r. Response tokenless_response), float_of_str = (\<lambda>s. None)\<rparr>"

text \<open>An entry of the campaign list, a row of the report, a successful response with a
  list, and a platform that answers with the given campaigns and rows and accepts every
  update.\<close>

definition campaign_entry :: "string \<Rightarrow> json \<Rightarrow> json" where
  "campaign_entry cid b = JObj [(''campaign_id'', JStr cid), (''budget'', b)]"

definition stat_row :: "string \<Rightarrow> real \<Rightarrow> real \<Rightarrow> json" where
  "stat_row cid sp rate =
     JObj [(''dimensions'', JObj [(''campaign_id'', JStr cid)]),
           (''metrics'',
            JObj [(''spend'', JNum sp), (''total_complete_payment_rate'', JNum rate)])]"

definition ok_response :: "json \<Rightarrow> json" where
  "ok_response items = JObj [(''code'', JNum 0), (''data'', JObj [(''list'', items)])]"

definition sample_env :: "json list \<Rightarrow> json list \<Rightarrow> env" where
  "sample_env campaigns stats =
     \<lparr>transport = (\<lambda>i r. case r of Request method endpoint token \<Rightarrow>
         if endpoint = ''campaign/get/'' then Response (ok_response (JList campaigns))
         else if endpoint = ''report/integrated/get/'' then Response (ok_response (JList stats))
         else Response (JObj [(''code'', JNum 0)])),
      float_of_str = (\<lambda>s. None)\<rparr>"

text \<open>A platform that does not answer the first three requests of the run and accepts
  every later one.\<close>

definition failing_update_env :: env where
  "failing_update_env =
     \<lparr>transport = (\<lambda>i r. if i < 3 then RequestException ''timed out''
                         else Response (JObj [(''code'', JNum 0)])),
      float_of_str = (\<lambda>s. None)\<rparr>"

definition update_timed_out :: error where
  "update_timed_out =
     TikTokAPIError [Lit ''Error updating campaign '', Str (JStr ''A''), Lit '' budget: '',
                     Lit ''API request failed: '', Lit ''timed out'']"

text \<open>A campaign of spend 100 and payment rate 200, and a budget map that knows the
  campaign A only.\<close>

definition sample_campaign :: "string \<Rightarrow> json \<Rightarrow> Campaign" where
  "sample_campaign cid b =
     \<lparr>campaign_id = JStr cid, spend = 100, total_complete_payment_rate = 200, budget = b\<rparr>"

definition sample_budgets :: "json \<rightharpoonup> json" where
  "sample_budgets = [JStr ''A'' \<mapsto> JNum 80]"

section \<open>Evaluation\<close>

text \<open>The equations that evaluate a call of the client, and a step of \<^verbatim>\<open>main\<close>, on a
  given input.\<close>

lemmas api_eval =
  get_campaign_performance_def get_campaigns_def update_campaign_budget_def
  token_missing_or_expired_def campaign_list_of_def report_campaigns_def stat_campaign_def
  token_data_of_def and_then_def dict_get_def subscript_def eq_zero_def iterate_def
  contains_def reraise_def hashable_def dict_key_def budgets_get_def py_float_def

lemmas main_eval =
  main_from_step2_def process_campaign_def process_campaign_body_def note_call_def
  print_line_def sleep_def retry_def retry_loop.simps calculate_roas_def
  calculate_adjustment_factor_def calculate_new_budget_def number_of_def
  TARGET_ROAS_def MAX_ADJUSTMENT_def MIN_BUDGET_def MIN_SPEND_def MIN_PAYMENT_RATE_def DAYS_def
  Let_def

section \<open>The budget functions\<close>

lemma clamp_bounds:
  fixes a m :: real
  assumes "0 \<le> m"
  shows "- m \<le> max (min a m) (- m)" and "max (min a m) (- m) \<le> m"
    and "- m \<le> a \<Longrightarrow> a \<le> m \<Longrightarrow> max (min a m) (- m) = a"
  using assms by (simp_all add: max_def min_def)

lemma MAX_ADJUSTMENT_nonneg: "0 \<le> MAX_ADJUSTMENT"
  by (simp add: MAX_ADJUSTMENT_def)

text \<open>
  C3, as the code has it: with an adjustment factor of 0 the new budget is the larger of
  the current budget and \<open>MIN_BUDGET\<close>; it is the current budget exactly when the
  current budget is at least \<open>MIN_BUDGET\<close>.
\<close>

theorem calculate_new_budget_zero_factor:
  "calculate_new_budget current_budget 0 = max current_budget MIN_BUDGET \<and>
   (calculate_new_budget current_budget 0 = current_budget) = (MIN_BUDGET \<le> current_budget)"
  by (auto simp: calculate_new_budget_def)

theorem calculate_new_budget_zero_factor_witness:
  "calculate_new_budget 80 0 = max 80 MIN_BUDGET \<and>
   (calculate_new_budget 80 0 = 80) = (MIN_BUDGET \<le> 80) \<and> calculate_new_budget 80 0 = 80"
  using calculate_new_budget_zero_factor [of 80] by (simp add: MIN_BUDGET_def)

text \<open>
  C3, as the claim states it, fails: a current budget of 40 with an adjustment factor
  of 0 gives the new budget 50.
\<close>

theorem calculate_new_budget_zero_factor_counterexample:
  "\<not> (\<forall>current_budget. calculate_new_budget current_budget 0 = current_budget)"
proof
  assume "\<forall>current_budget. calculate_new_budget current_budget 0 = current_budget"
  then have "calculate_new_budget 40 0 = 40" by blast
  then show False by (simp add: calculate_new_budget_def MIN_BUDGET_def)
qed

text \<open>
  C8: for every \<open>roas > 0\<close> the adjustment factor lies between \<open>- MAX_ADJUSTMENT\<close> and
  \<open>MAX_ADJUSTMENT\<close>, and it is the raw value \<open>(roas - TARGET_ROAS) / TARGET_ROAS\<close>
  whenever the raw value lies between the two.
\<close>

theorem calculate_adjustment_factor_clamped:
  assumes "0 < roas"
  shows "- MAX_ADJUSTMENT \<le> calculate_adjustment_factor roas \<and>
         calculate_adjustment_factor roas \<le> MAX_ADJUSTMENT \<and>
         (- MAX_ADJUSTMENT \<le> (roas - TARGET_ROAS) / TARGET_ROAS \<and>
          (roas - TARGET_ROAS) / TARGET_ROAS \<le> MAX_ADJUSTMENT \<longrightarrow>
          calculate_adjustment_factor roas = (roas - TARGET_ROAS) / TARGET_ROAS)"
  unfolding calculate_adjustment_factor_def Let_def
  using clamp_bounds [OF MAX_ADJUSTMENT_nonneg, of "(roas - TARGET_ROAS) / TARGET_ROAS"]
  by blast

theorem calculate_adjustment_factor_clamped_witness:
  "(0::real) < 2 \<and> - MAX_ADJUSTMENT \<le> (2 - TARGET_ROAS) / TARGET_ROAS \<and>
   (2 - TARGET_ROAS) / TARGET_ROAS \<le> MAX_ADJUSTMENT \<and>
   - MAX_ADJUSTMENT \<le> calculate_adjustment_factor 2 \<and>
   calculate_adjustment_factor 2 \<le> MAX_ADJUSTMENT \<and>
   calculate_adjustment_factor 2 = 1 / 3"
  using calculate_adjustment_factor_clamped [of 2]
  by (simp add: calculate_adjustment_factor_def Let_def MAX_ADJUSTMENT_def TARGET_ROAS_def)

section \<open>retry\<close>

lemma retry_loop_always_failing:
  assumes fails: "\<forall>w. \<exists>e. fst (func w) = Inl e \<and> exception_types e"
    and delay: "0 \<le> delay"
  shows "attempt + int k = r \<Longrightarrow>
         \<exists>e. fst (func (failed_attempts func r delay attempt k w)) = Inl e \<and>
             retry_loop func r delay exception_types attempt w =
               (Inl e, snd (func (failed_attempts func r delay attempt k w)))"
proof (induction k arbitrary: attempt w)
  case 0
  from fails obtain e where e: "fst (func w) = Inl e" "exception_types e" by blast
  then obtain w1 where "func w = (Inl e, w1)" by (cases "func w") auto
  with 0 e show ?case by (simp add: retry_loop.simps)
next
  case (Suc k)
  from fails obtain e where e: "fst (func w) = Inl e" "exception_types e" by blast
  then obtain w1 where w1: "func w = (Inl e, w1)" by (cases "func w") auto
  define w2 where "w2 = print_line (RetryingLine e delay (attempt + 1) r) w1"
  have fa: "failed_attempt func r delay attempt w = w2\<lparr>clock := clock w2 + delay\<rparr>"
    using w1 delay by (simp add: failed_attempt_def sleep_def w2_def)
  have step: "retry_loop func r delay exception_types attempt w =
              retry_loop func r delay exception_types (attempt + 1) (w2\<lparr>clock := clock w2 + delay\<rparr>)"
    using Suc.prems w1 e delay by (subst retry_loop.simps) (simp add: sleep_def w2_def)
  have "(attempt + 1) + int k = r" using Suc.prems by simp
  from Suc.IH [OF this, of "w2\<lparr>clock := clock w2 + delay\<rparr>"] show ?case
    by (simp add: fa step)
qed

text \<open>
  C7: when the operation raises a retryable exception at every call, \<open>0 \<le> r\<close> and the
  delay is one \<^verbatim>\<open>time.sleep\<close> accepts, \<open>retry\<close> with \<open>max_retries = r\<close> goes through \<open>r\<close>
  failed attempts, each one a call of the operation followed by the printed line and the
  delay, calls the operation once more (the call number \<open>r + 1\<close>) and raises the exception
  of that last call as it is, in the state that call left.
\<close>

theorem retry_always_failing:
  assumes "\<forall>w. \<exists>e. fst (func w) = Inl e \<and> exception_types e"
    and "0 \<le> r" and "0 \<le> delay"
  shows "\<exists>e. fst (func (failed_attempts func r delay 0 (nat r) w)) = Inl e \<and>
             retry func r delay exception_types w =
               (Inl e, snd (func (failed_attempts func r delay 0 (nat r) w)))"
  unfolding retry_def
  using retry_loop_always_failing [OF assms(1) assms(3), of 0 "nat r" r w] assms(2) by simp

theorem retry_always_failing_witness:
  "(\<forall>w. \<exists>e. fst (always_fails w) = Inl e \<and> e = ValueError) \<and> (0::int) \<le> 2 \<and> (0::int) \<le> 300 \<and>
   retry always_fails 2 300 (\<lambda>e. e = ValueError) fresh_world =
     (Inl ValueError,
      fresh_world\<lparr>clock := 600,
         stdout := [NoCampaignsLine, RetryingLine ValueError 300 1 2,
                    NoCampaignsLine, RetryingLine ValueError 300 2 2, NoCampaignsLine]\<rparr>)"
proof -
  have h: "\<forall>w. \<exists>e. fst (always_fails w) = Inl e \<and> (\<lambda>e. e = ValueError) e"
    by (simp add: always_fails_def)
  show ?thesis
    using h retry_always_failing [OF h, of 2 300 fresh_world]
    by (simp add: eval_nat_numeral failed_attempt_def always_fails_def [abs_def] sleep_def
        print_line_def fresh_world_def)
qed

text \<open>
  C10: with \<open>max_retries < 0\<close> the loop body is never entered: \<open>retry\<close> returns \<^verbatim>\<open>None\<close>
  and leaves the state as it was (nothing called, nothing printed, no delay), whatever
  the operation is.
\<close>

theorem retry_negative_max_retries:
  "max_retries < 0 \<Longrightarrow> retry func max_retries delay exception_types w = (Inr None, w)"
  by (simp add: retry_def retry_loop.simps)

theorem retry_negative_max_retries_witness:
  "(- 1 :: int) < 0 \<and>
   retry always_fails (- 1) 300 (\<lambda>e. True) fresh_world = (Inr None, fresh_world)"
  using retry_negative_max_retries [of "- 1" always_fails 300 "\<lambda>e. True" fresh_world]
  by simp

section \<open>The token\<close>

lemma token_recursion:
  "token_missing_or_expired w \<Longrightarrow>
   access_token depth E w = (Inl RecursionError, w) \<and>
   get_access_token depth E w = (Inl RecursionError, w) \<and>
   make_request depth E method endpoint w = (Inl RecursionError, w)"
proof (induction depth arbitrary: "method" "endpoint")
  case 0
  show ?case by simp
next
  case (Suc depth)
  then show ?case by (simp add: reraise_def)
qed

text \<open>
  C1, what the code does: when the client has no token, or its token has expired, the
  \<^verbatim>\<open>access_token\<close> property calls \<^verbatim>\<open>get_access_token\<close>, which calls \<^verbatim>\<open>_make_request\<close>,
  which reads the property again. Whatever depth of calls the interpreter allows, each of
  the three uses it up and ends in \<^verbatim>\<open>RecursionError\<close>, with no request sent, no token
  stored and the state as it was: the token is never acquired.
\<close>

theorem token_acquisition_recursion:
  "token_missing_or_expired w \<Longrightarrow>
   access_token depth E w = (Inl RecursionError, w) \<and>
   get_access_token depth E w = (Inl RecursionError, w) \<and>
   make_request depth E method endpoint w = (Inl RecursionError, w)"
  by (rule token_recursion)

theorem token_acquisition_recursion_witness:
  "token_missing_or_expired fresh_world \<and>
   access_token 1000 tokenless_env fresh_world = (Inl RecursionError, fresh_world) \<and>
   get_access_token 1000 tokenless_env fresh_world = (Inl RecursionError, fresh_world) \<and>
   make_request 1000 tokenless_env ''GET'' ''oauth2/access_token/'' fresh_world =
     (Inl RecursionError, fresh_world)"
proof -
  have h: "token_missing_or_expired fresh_world"
    by (simp add: token_missing_or_expired_def fresh_world_def)
  show ?thesis
    using h token_acquisition_recursion
      [OF h, of 1000 tokenless_env "''GET''" "''oauth2/access_token/''"]
    by simp
qed

text \<open>A run of \<^verbatim>\<open>main\<close> builds its client without a token, so it ends in its first step,
  whatever the platform would answer.\<close>

lemma main_recursion:
  "main depth E w0 =
     (Inl RecursionError,
      w0\<lparr>self_ad_id := ADVERTISER_ID, self_access_token := JNull, self_token_expiry := None\<rparr>)"
proof -
  define w where
    "w = w0\<lparr>self_ad_id := ADVERTISER_ID, self_access_token := JNull, self_token_expiry := None\<rparr>"
  have "token_missing_or_expired w" by (simp add: token_missing_or_expired_def w_def)
  then have "get_access_token depth E w = (Inl RecursionError, w)"
    using token_recursion by blast
  then show ?thesis
    by (simp add: main_def retry_def retry_loop.simps Let_def w_def [symmetric])
qed

text \<open>A response with the success code whose data has no token is turned into a token
  dictionary whose token is \<^verbatim>\<open>None\<close>; it never raises a \<open>TikTokAPIError\<close>.\<close>

lemma token_data_of_without_token:
  assumes "dict_get data ''code'' JNull = Inr code" and "eq_zero code"
    and "subscript data ''data'' = Inr (JObj items)"
    and "map_of items ''access_token'' = None"
  shows "(\<forall>m. token_data_of ad_id data \<noteq> Inl (TikTokAPIError m)) \<and>
         (\<forall>token_data. token_data_of ad_id data = Inr token_data \<longrightarrow>
            map_of token_data ''access_token'' = Some JNull)"
  using assms
  by (auto simp: token_data_of_def and_then_def dict_get_def contains_def
      split: json.splits option.splits)

text \<open>
  C2, what the code does: with a token in hand, \<^verbatim>\<open>get_access_token\<close> on a platform that
  answers with the success code and no token returns a dictionary whose \<^verbatim>\<open>access_token\<close>
  is \<^verbatim>\<open>None\<close>; it does not raise.
\<close>

theorem get_access_token_without_token:
  "get_access_token 3 tokenless_env cached_world =
     (Inr [(''access_token'', JNull),
           (''advertiser_ids'', JList [JStr ADVERTISER_ID]),
           (''ad_id_validity'', JBool True)],
      cached_world\<lparr>requests_made := 1\<rparr>)"
  by (simp add: eval_nat_numeral api_eval cached_world_def fresh_world_def tokenless_env_def
      tokenless_response_def)

section \<open>The eligible campaigns\<close>

lemma valid_campaigns_loop_eq:
  "valid_campaigns_loop E b ms mp acc stats = Inr cs \<Longrightarrow>
   map Inr cs = map Inr acc @ filter (passes ms mp) (map (stat_campaign E b) stats)"
proof (induction stats arbitrary: acc)
  case Nil
  then show ?case by simp
next
  case (Cons stat stats)
  show ?case
  proof (cases "stat_campaign E b stat")
    case (Inl e)
    with Cons.prems show ?thesis by simp
  next
    case (Inr c)
    with Cons.prems Cons.IH show ?thesis
      by (cases "ms < spend c \<and> mp < total_complete_payment_rate c") (auto simp: passes_def)
  qed
qed

lemma valid_campaigns_loop_set:
  assumes "valid_campaigns_loop E b ms mp [] stats = Inr cs"
  shows "(c \<in> set cs) =
         ((\<exists>stat \<in> set stats. stat_campaign E b stat = Inr c) \<and>
          ms < spend c \<and> mp < total_complete_payment_rate c)"
proof -
  have "(c \<in> set cs) = ((Inr c :: error + Campaign) \<in> set (map Inr cs))"
    by auto
  also have "\<dots> = (Inr c \<in> set (filter (passes ms mp) (map (stat_campaign E b) stats)))"
    using valid_campaigns_loop_eq [OF assms] by simp
  also have "\<dots> = (Inr c \<in> stat_campaign E b ` set stats \<and> passes ms mp (Inr c))"
    by simp
  also have "\<dots> = ((\<exists>stat \<in> set stats. stat_campaign E b stat = Inr c) \<and>
                    ms < spend c \<and> mp < total_complete_payment_rate c)"
    by (force simp: passes_def)
  finally show ?thesis .
qed

lemma stat_campaign_fields:
  assumes "stat_campaign E b stat = Inr c"
  shows "budget c = (case b (dict_key (campaign_id c)) of None \<Rightarrow> JNull | Some v \<Rightarrow> v)"
    and "\<exists>dimensions. dict_get stat ''dimensions'' (JObj []) = Inr dimensions \<and>
           dict_get dimensions ''campaign_id'' JNull = Inr (campaign_id c)"
  using assms
  by (auto simp: stat_campaign_def and_then_def budgets_get_def split: sum.splits if_splits)

lemma campaign_ids_of_Nil:
  "campaign_ids_of entries = Inr ids \<Longrightarrow> (ids = []) = (entries = [])"
  by (cases entries) (auto split: sum.splits)

lemma report_campaigns_Inr:
  assumes "report_campaigns E b ms mp data = Inr cs"
  shows "\<exists>d stats_list stats.
           dict_get data ''data'' (JObj []) = Inr d \<and>
           dict_get d ''list'' (JList []) = Inr stats_list \<and>
           iterate stats_list = Inr stats \<and>
           valid_campaigns_loop E b ms mp [] stats = Inr cs"
  using assms
  by (auto simp: report_campaigns_def and_then_def split: sum.splits if_splits)

lemma get_campaign_performance_Inr:
  assumes "get_campaign_performance depth E days ms mp w = (Inr cs, w')"
  shows "\<exists>campaigns w1 entries b.
           get_campaigns depth E w = (Inr campaigns, w1) \<and>
           iterate campaigns = Inr entries \<and>
           campaign_budgets_of Map.empty entries = Inr b \<and>
           (entries = [] \<and> cs = [] \<and> w' = w1 \<or>
            entries \<noteq> [] \<and>
            (\<exists>data. make_request depth E ''POST'' ''report/integrated/get/'' w1 = (Inr data, w') \<and>
                    report_campaigns E b ms mp data = Inr cs))"
proof -
  obtain r w1 where g: "get_campaigns depth E w = (r, w1)" by force
  show ?thesis
  proof (cases r)
    case (Inl e)
    with g assms show ?thesis
      by (auto simp: get_campaign_performance_def reraise_def split: error.splits)
  next
    case (Inr campaigns)
    show ?thesis
    proof (cases "iterate campaigns")
      case (Inl e)
      with g Inr assms show ?thesis
        by (auto simp: get_campaign_performance_def and_then_def reraise_def split: error.splits)
    next
      case entries: (Inr entries)
      show ?thesis
      proof (cases "campaign_ids_of entries")
        case (Inl e)
        with g Inr entries assms show ?thesis
          by (auto simp: get_campaign_performance_def and_then_def reraise_def
              split: error.splits)
      next
        case ids: (Inr ids)
        show ?thesis
        proof (cases "campaign_budgets_of Map.empty entries")
          case (Inl e)
          with g Inr entries ids assms show ?thesis
            by (auto simp: get_campaign_performance_def and_then_def reraise_def
                split: error.splits)
        next
          case b: (Inr b)
          have e: "(ids = []) = (entries = [])" using ids by (rule campaign_ids_of_Nil)
          show ?thesis
          proof (cases "entries = []")
            case True
            with g Inr entries ids b e assms show ?thesis
              by (simp add: get_campaign_performance_def and_then_def)
          next
            case False
            obtain r2 w2 where m:
              "make_request depth E ''POST'' ''report/integrated/get/'' w1 = (r2, w2)"
              by force
            from False e have ne: "ids \<noteq> []" by simp
            from g Inr entries ids b ne m assms
            have res: "(reraise [Lit ''Failed to get campaign performance: '']
                     (case r2 of Inl e \<Rightarrow> Inl e
                      | Inr data \<Rightarrow> report_campaigns E b ms mp data), w2) = (Inr cs, w')"
              by (auto simp: get_campaign_performance_def and_then_def split: sum.splits)
            then have w2: "w2 = w'" by simp
            from res have "(case r2 of Inl e \<Rightarrow> Inl e
                      | Inr data \<Rightarrow> report_campaigns E b ms mp data) = Inr cs"
              by (auto simp: reraise_def split: sum.splits error.splits)
            then obtain data where "r2 = Inr data" "report_campaigns E b ms mp data = Inr cs"
              by (cases r2) auto
            with g Inr entries b False m w2 show ?thesis by auto
          qed
        qed
      qed
    qed
  qed
qed

text \<open>
  C5, as the code has it: when \<^verbatim>\<open>get_campaign_performance\<close> returns, either the campaign
  list was empty and so is the result, or the result is exactly the rows of the report
  that pass both thresholds, in the order of the report, each as the \<^verbatim>\<open>Campaign\<close> the row
  gives. So every campaign returned has the identifier of a row of the report (a campaign
  of the budget map that no row names is not returned) and the budget the budget map has
  for that identifier, or \<^verbatim>\<open>None\<close> when the map has none: a row that passes both
  thresholds is returned whether the budget map knows its identifier or not.
\<close>

theorem get_campaign_performance_result:
  assumes "get_campaign_performance depth E days min_spend min_payment_rate w = (Inr cs, w')"
  shows "\<exists>campaigns w1 entries campaign_budgets.
           get_campaigns depth E w = (Inr campaigns, w1) \<and>
           iterate campaigns = Inr entries \<and>
           campaign_budgets_of Map.empty entries = Inr campaign_budgets \<and>
           (entries = [] \<and> cs = [] \<and> w' = w1 \<or>
            entries \<noteq> [] \<and>
            (\<exists>data d stats_list stats.
               make_request depth E ''POST'' ''report/integrated/get/'' w1 = (Inr data, w') \<and>
               dict_get data ''data'' (JObj []) = Inr d \<and>
               dict_get d ''list'' (JList []) = Inr stats_list \<and>
               iterate stats_list = Inr stats \<and>
               map Inr cs =
                 filter (passes min_spend min_payment_rate)
                   (map (stat_campaign E campaign_budgets) stats) \<and>
               (\<forall>c. (c \<in> set cs) =
                  ((\<exists>stat \<in> set stats. stat_campaign E campaign_budgets stat = Inr c) \<and>
                   spend c > min_spend \<and> total_complete_payment_rate c > min_payment_rate)) \<and>
               (\<forall>c \<in> set cs. \<exists>stat \<in> set stats. \<exists>dimensions.
                  dict_get stat ''dimensions'' (JObj []) = Inr dimensions \<and>
                  dict_get dimensions ''campaign_id'' JNull = Inr (campaign_id c)) \<and>
               (\<forall>c \<in> set cs.
                  budget c = (case campaign_budgets (dict_key (campaign_id c)) of
                                None \<Rightarrow> JNull | Some v \<Rightarrow> v))))"
proof -
  from get_campaign_performance_Inr [OF assms] obtain campaigns w1 entries b where
    g: "get_campaigns depth E w = (Inr campaigns, w1)" "iterate campaigns = Inr entries"
      "campaign_budgets_of Map.empty entries = Inr b"
    and d: "entries = [] \<and> cs = [] \<and> w' = w1 \<or>
            entries \<noteq> [] \<and>
            (\<exists>data. make_request depth E ''POST'' ''report/integrated/get/'' w1 = (Inr data, w') \<and>
                    report_campaigns E b min_spend min_payment_rate data = Inr cs)"
    by blast
  show ?thesis
  proof (cases "entries = []")
    case True
    with g d show ?thesis by blast
  next
    case False
    with d obtain data where m:
      "make_request depth E ''POST'' ''report/integrated/get/'' w1 = (Inr data, w')"
      and r: "report_campaigns E b min_spend min_payment_rate data = Inr cs"
      by blast
    from report_campaigns_Inr [OF r] obtain dd stats_list stats where
      s: "dict_get data ''data'' (JObj []) = Inr dd" "dict_get dd ''list'' (JList []) = Inr stats_list"
        "iterate stats_list = Inr stats"
      and l: "valid_campaigns_loop E b min_spend min_payment_rate [] stats = Inr cs"
      by blast
    have eq: "map Inr cs = filter (passes min_spend min_payment_rate) (map (stat_campaign E b) stats)"
      using valid_campaigns_loop_eq [OF l] by simp
    have mem: "\<forall>c. (c \<in> set cs) =
                  ((\<exists>stat \<in> set stats. stat_campaign E b stat = Inr c) \<and>
                   spend c > min_spend \<and> total_complete_payment_rate c > min_payment_rate)"
      using valid_campaigns_loop_set [OF l] by blast
    have ids: "\<forall>c \<in> set cs. \<exists>stat \<in> set stats. \<exists>dimensions.
                  dict_get stat ''dimensions'' (JObj []) = Inr dimensions \<and>
                  dict_get dimensions ''campaign_id'' JNull = Inr (campaign_id c)"
      using mem stat_campaign_fields(2) by blast
    have bud: "\<forall>c \<in> set cs.
                  budget c = (case b (dict_key (campaign_id c)) of None \<Rightarrow> JNull | Some v \<Rightarrow> v)"
      using mem stat_campaign_fields(1) by blast
    from g False m s eq mem ids bud show ?thesis by blast
  qed
qed

theorem get_campaign_performance_result_witness:
  "get_campaign_performance 3
     (sample_env [campaign_entry ''A'' (JNum 80)] [stat_row ''B'' 100 200]) 30 0 0
     cached_world =
     (Inr [sample_campaign ''B'' JNull], cached_world\<lparr>requests_made := 2\<rparr>) \<and>
   map Inr [sample_campaign ''B'' JNull] =
     filter (passes 0 0)
       (map (stat_campaign (sample_env [campaign_entry ''A'' (JNum 80)] [stat_row ''B'' 100 200])
               sample_budgets)
          [stat_row ''B'' 100 200]) \<and>
   sample_budgets (dict_key (campaign_id (sample_campaign ''B'' JNull))) = None \<and>
   budget (sample_campaign ''B'' JNull) = JNull \<and>
   (\<exists>campaigns w1 entries campaign_budgets.
      get_campaigns 3 (sample_env [campaign_entry ''A'' (JNum 80)] [stat_row ''B'' 100 200])
        cached_world = (Inr campaigns, w1) \<and>
      iterate campaigns = Inr entries \<and>
      campaign_budgets_of Map.empty entries = Inr campaign_budgets \<and> entries \<noteq> [])"
proof -
  have h: "get_campaign_performance 3
     (sample_env [campaign_entry ''A'' (JNum 80)] [stat_row ''B'' 100 200]) 30 0 0
     cached_world =
     (Inr [sample_campaign ''B'' JNull], cached_world\<lparr>requests_made := 2\<rparr>)"
    by (simp add: eval_nat_numeral api_eval cached_world_def fresh_world_def sample_env_def
        campaign_entry_def ok_response_def stat_row_def sample_campaign_def)
  have e: "map Inr [sample_campaign ''B'' JNull] =
     filter (passes 0 0)
       (map (stat_campaign (sample_env [campaign_entry ''A'' (JNum 80)] [stat_row ''B'' 100 200])
               sample_budgets)
          [stat_row ''B'' 100 200])"
    by (simp add: api_eval passes_def stat_row_def sample_campaign_def sample_budgets_def)
  have b: "sample_budgets (dict_key (campaign_id (sample_campaign ''B'' JNull))) = None"
    "budget (sample_campaign ''B'' JNull) = JNull"
    by (simp_all add: sample_budgets_def dict_key_def sample_campaign_def)
  have "\<exists>campaigns w1 entries campaign_budgets.
      get_campaigns 3 (sample_env [campaign_entry ''A'' (JNum 80)] [stat_row ''B'' 100 200])
        cached_world = (Inr campaigns, w1) \<and>
      iterate campaigns = Inr entries \<and>
      campaign_budgets_of Map.empty entries = Inr campaign_budgets \<and> entries \<noteq> []"
    using get_campaign_performance_result [OF h] by fastforce
  with h e b show ?thesis by blast
qed

text \<open>
  C5, as the claim states it, fails: the campaign list has the campaign A only, the
  report has a row for the campaign B only, and \<^verbatim>\<open>get_campaign_performance\<close> returns the
  campaign B, with no budget.
\<close>

theorem get_campaign_performance_unmatched_row:
  "get_campaign_performance 3
     (sample_env [campaign_entry ''A'' (JNum 80)] [stat_row ''B'' 100 200]) 30 0 0
     cached_world =
     (Inr [sample_campaign ''B'' JNull], cached_world\<lparr>requests_made := 2\<rparr>)"
  by (simp add: eval_nat_numeral api_eval cached_world_def fresh_world_def sample_env_def
      campaign_entry_def ok_response_def stat_row_def sample_campaign_def)



section \<open>What the calls of the platform leave unchanged\<close>

lemma reraise_Inr: "reraise p r = Inr v \<Longrightarrow> r = Inr v"
  by (auto simp: reraise_def split: sum.splits error.splits)

lemma statuses_append: "statuses (xs @ ys) = statuses xs @ statuses ys"
  by (simp add: statuses_def map_filter_def)

lemma statuses_Nil: "statuses [] = []"
  by (simp add: statuses_def map_filter_def)

lemma statuses_Cons:
  "statuses (l # ls) = (case status_of l of None \<Rightarrow> statuses ls | Some c \<Rightarrow> c # statuses ls)"
  by (simp add: statuses_def map_filter_def split: option.splits)

lemma api_same_output:
  "same_output w (snd (access_token depth E w)) \<and>
   same_output w (snd (get_access_token depth E w)) \<and>
   same_output w (snd (make_request depth E method endpoint w))"
proof (induction depth arbitrary: w "method" "endpoint")
  case 0
  show ?case by (simp add: same_output_def)
next
  case (Suc depth)
  have a: "same_output w (snd (access_token (Suc depth) E w))"
    using Suc [of w] 
    by (auto simp: same_output_def split: prod.splits sum.splits option.splits)
  have g: "same_output w (snd (get_access_token (Suc depth) E w))"
    using Suc [of w "''GET''" "''oauth2/access_token/''"]
    by (auto simp: same_output_def split: prod.splits sum.splits)
  have m: "same_output w (snd (make_request (Suc depth) E method endpoint w))"
    using Suc [of w]
    by (auto simp: same_output_def split: prod.splits sum.splits http_result.splits)
  from a g m show ?case by blast
qed

lemma make_request_same_output: "same_output w (snd (make_request depth E method endpoint w))"
  using api_same_output by blast

lemma update_campaign_budget_same_output:
  "same_output w (snd (update_campaign_budget depth E cid new_budget w))"
  using make_request_same_output [of w depth E "''POST''" "''campaign/update/''"]
  by (auto simp: update_campaign_budget_def split: prod.splits sum.splits)

lemma get_campaign_performance_same_output:
  "same_output w (snd (get_campaign_performance depth E days ms mp w))"
proof -
  obtain r w1 where g: "make_request depth E ''GET'' ''campaign/get/'' w = (r, w1)"
    by force
  have w1: "same_output w w1"
    using make_request_same_output [of w depth E "''GET''" "''campaign/get/''"] g by simp
  have "\<And>r2 w2. make_request depth E ''POST'' ''report/integrated/get/'' w1 = (r2, w2)
          \<Longrightarrow> same_output w w2"
    using make_request_same_output [of w1 depth E "''POST''" "''report/integrated/get/''"] w1
    by (simp add: same_output_def)
  with w1 g show ?thesis
    by (auto simp: get_campaign_performance_def get_campaigns_def
        split: prod.splits sum.splits)
qed

lemma retry_loop_output:
  assumes func: "\<And>w. same_output w (snd (func w))"
  shows "k = nat (m + 1 - a) \<Longrightarrow>
         policy_calls (snd (retry_loop func m d ex a w)) = policy_calls w \<and>
         (\<exists>ls. stdout (snd (retry_loop func m d ex a w)) = stdout w @ ls \<and> statuses ls = [])"
proof (induction k arbitrary: a w)
  case 0
  then have "\<not> a \<le> m" by simp
  then show ?case by (simp add: retry_loop.simps [of func m d ex a w] statuses_Nil)
next
  case (Suc k)
  then have am: "a \<le> m" by simp
  obtain r w1 where f: "func w = (r, w1)" by force
  have w1: "stdout w1 = stdout w" "policy_calls w1 = policy_calls w"
    using func [of w] f by (simp_all add: same_output_def)
  show ?case
  proof (cases r)
    case (Inr v)
    with am f w1 show ?thesis
      by (simp add: retry_loop.simps [of func m d ex a w] statuses_Nil)
  next
    case (Inl e)
    show ?thesis
    proof (cases "ex e \<and> \<not> a + 1 > m \<and> \<not> d < 0")
      case False
      with am f w1 Inl show ?thesis
        by (auto simp: retry_loop.simps [of func m d ex a w] statuses_Nil sleep_def
            print_line_def statuses_Cons)
    next
      case True
      define w2 where "w2 = (print_line (RetryingLine e d (a + 1) m) w1)\<lparr>clock :=
        clock (print_line (RetryingLine e d (a + 1) m) w1) + d\<rparr>"
      have step: "retry_loop func m d ex a w = retry_loop func m d ex (a + 1) w2"
        using am f Inl True by (simp add: retry_loop.simps [of func m d ex a w] sleep_def w2_def)
      have w2: "stdout w2 = stdout w @ [RetryingLine e d (a + 1) m]"
        "policy_calls w2 = policy_calls w"
        using w1 by (simp_all add: w2_def print_line_def)
      have "k = nat (m + 1 - (a + 1))" using Suc.prems by simp
      from Suc.IH [OF this, of w2] obtain ls where
        "policy_calls (snd (retry_loop func m d ex (a + 1) w2)) = policy_calls w2"
        "stdout (snd (retry_loop func m d ex (a + 1) w2)) = stdout w2 @ ls" "statuses ls = []"
        by blast
      then show ?thesis
        using w2 by (simp add: step statuses_Cons)
    qed
  qed
qed

lemma retry_output:
  assumes "\<And>w. same_output w (snd (func w))"
  shows "policy_calls (snd (retry func m d ex w)) = policy_calls w \<and>
         (\<exists>ls. stdout (snd (retry func m d ex w)) = stdout w @ ls \<and> statuses ls = [])"
  unfolding retry_def using retry_loop_output [OF assms refl] .

lemma retry_loop_result:
  assumes func: "\<And>w v w'. func w = (Inr v, w') \<Longrightarrow> Q v"
  shows "k = nat (m + 1 - a) \<Longrightarrow> retry_loop func m d ex a w = (Inr (Some v), w') \<Longrightarrow> Q v"
proof (induction k arbitrary: a w)
  case 0
  then have "\<not> a \<le> m" by simp
  with 0 show ?case by (simp add: retry_loop.simps [of func m d ex a w])
next
  case (Suc k)
  then have am: "a \<le> m" by simp
  obtain r w1 where f: "func w = (r, w1)" by force
  show ?case
  proof (cases r)
    case (Inr u)
    with am f Suc.prems func [of w u w1] show ?thesis
      by (simp add: retry_loop.simps [of func m d ex a w])
  next
    case (Inl e)
    have k: "k = nat (m + 1 - (a + 1))" using Suc.prems(1) by simp
    from Suc.prems(2) am f Inl Suc.IH [OF k] show ?thesis
      by (auto simp: retry_loop.simps [of func m d ex a w] sleep_def
          split: if_splits)
  qed
qed

lemma retry_result:
  assumes "\<And>w v w'. func w = (Inr v, w') \<Longrightarrow> Q v"
    and "retry func m d ex w = (Inr (Some v), w')"
  shows "Q v"
  using retry_loop_result [of func Q _ m 0 d ex w v w', OF assms(1) refl] assms(2)
  by (simp add: retry_def)

lemma get_campaign_performance_spend:
  assumes "get_campaign_performance depth E days ms mp w = (Inr cs, w')"
  shows "\<forall>c \<in> set cs. ms < spend c"
proof -
  have loop: "\<And>b stats. valid_campaigns_loop E b ms mp [] stats = Inr cs
                \<Longrightarrow> \<forall>c \<in> set cs. ms < spend c"
    using valid_campaigns_loop_set by blast
  have rep: "\<And>b data. report_campaigns E b ms mp data = Inr cs \<Longrightarrow> \<forall>c \<in> set cs. ms < spend c"
    using loop by (auto simp: report_campaigns_def and_then_def split: sum.splits if_splits)
  show ?thesis
    using assms rep
    by (auto simp: get_campaign_performance_def split: prod.splits sum.splits if_splits
        dest!: reraise_Inr)
qed

section \<open>The loop over the campaigns\<close>

lemma retry_update_output:
  assumes "retry (update_campaign_budget depth E cid nb) m d ex w = (r, w')"
  shows "policy_calls w' = policy_calls w \<and> statuses (stdout w') = statuses (stdout w) \<and>
         set (stdout w) \<subseteq> set (stdout w')"
proof -
  from retry_output [of "update_campaign_budget depth E cid nb" m d ex w,
      OF update_campaign_budget_same_output] assms
  obtain ls where "policy_calls w' = policy_calls w" "stdout w' = stdout w @ ls" "statuses ls = []"
    by auto
  then show ?thesis
    by (simp add: statuses_append)
qed

lemma process_campaign_body_stdout:
  assumes "process_campaign_body depth E c w = (r, w')"
  shows "statuses (stdout w') =
           statuses (stdout w) @ (case r of Inl e \<Rightarrow> [] | Inr u \<Rightarrow> [campaign_id c])"
    and "set (stdout w) \<subseteq> set (stdout w')"
  using assms
  by (auto simp: process_campaign_body_def Let_def note_call_def print_line_def
      statuses_append statuses_Cons statuses_Nil
      split: sum.splits option.splits if_splits prod.splits
      dest!: retry_update_output)

lemma process_campaign_body_policy_calls:
  assumes "process_campaign_body depth E c w = (r, w')" and "0 < spend c"
    and "\<forall>p \<in> set (policy_calls w). policy_call_ok p"
  shows "\<forall>p \<in> set (policy_calls w'). policy_call_ok p"
  using assms
  by (auto simp: process_campaign_body_def Let_def note_call_def print_line_def
      split: sum.splits option.splits if_splits prod.splits
      dest!: retry_update_output)

lemma process_campaign_stdout:
  "statuses (stdout (process_campaign depth E c w)) = statuses (stdout w) @ [campaign_id c]"
  "set (stdout w) \<subseteq> set (stdout (process_campaign depth E c w))"
proof -
  obtain r w' where b: "process_campaign_body depth E c w = (r, w')" by force
  from process_campaign_body_stdout [OF b] b
  show "statuses (stdout (process_campaign depth E c w)) = statuses (stdout w) @ [campaign_id c]"
    "set (stdout w) \<subseteq> set (stdout (process_campaign depth E c w))"
    by (auto simp: process_campaign_def print_line_def statuses_append statuses_Cons statuses_Nil
        split: sum.splits)
qed

lemma process_campaign_policy_calls:
  assumes "0 < spend c" and "\<forall>p \<in> set (policy_calls w). policy_call_ok p"
  shows "\<forall>p \<in> set (policy_calls (process_campaign depth E c w)). policy_call_ok p"
proof -
  obtain r w' where b: "process_campaign_body depth E c w = (r, w')" by force
  from process_campaign_body_policy_calls [OF b assms] b show ?thesis
    by (auto simp: process_campaign_def print_line_def split: sum.splits)
qed

lemma process_campaigns_stdout:
  "statuses (stdout (process_campaigns depth E cs w)) = statuses (stdout w) @ map campaign_id cs"
  "set (stdout w) \<subseteq> set (stdout (process_campaigns depth E cs w))"
proof (induction cs arbitrary: w)
  case Nil
  { case 1 show ?case by simp }
  { case 2 show ?case by simp }
next
  case (Cons c cs)
  { case 1 show ?case by (simp add: Cons.IH(1) process_campaign_stdout(1)) }
  { case 2 show ?case
      using Cons.IH(2) [of "process_campaign depth E c w"] process_campaign_stdout(2) [of w depth E c]
      by auto }
qed

lemma process_campaigns_append:
  "process_campaigns depth E (xs @ ys) w =
   process_campaigns depth E ys (process_campaigns depth E xs w)"
  by (induction xs arbitrary: w) simp_all

lemma process_campaigns_policy_calls:
  assumes "\<forall>c \<in> set cs. 0 < spend c" and "\<forall>p \<in> set (policy_calls w). policy_call_ok p"
  shows "\<forall>p \<in> set (policy_calls (process_campaigns depth E cs w)). policy_call_ok p"
  using assms
proof (induction cs arbitrary: w)
  case Nil
  then show ?case by simp
next
  case (Cons c cs)
  have "\<forall>p \<in> set (policy_calls (process_campaign depth E c w)). policy_call_ok p"
    using process_campaign_policy_calls [of c w depth E] Cons.prems by simp
  with Cons.IH [of "process_campaign depth E c w"] Cons.prems show ?case by simp
qed

text \<open>
  C4, as the code has it: from step 2 of \<^verbatim>\<open>main\<close> on, every campaign \<open>calculate_roas\<close>
  is called on has a spend above 0, and \<open>calculate_new_budget\<close> is only called with a
  known budget. The claim also has no budget function called on a campaign of unknown
  budget; the code calls \<open>calculate_roas\<close> and \<open>calculate_adjustment_factor\<close> before
  it looks at the budget, so this part is left out.
\<close>

theorem policy_calls_invariant:
  assumes "\<forall>p \<in> set (policy_calls w). policy_call_ok p"
  shows "\<forall>p \<in> set (policy_calls (snd (main_from_step2 depth E w))). policy_call_ok p"
proof -
  define f where "f = get_campaign_performance depth E DAYS MIN_SPEND MIN_PAYMENT_RATE"
  obtain r w1 where r: "retry f 2 300 is_TikTokAPIError w = (r, w1)" by force
  have w1: "policy_calls w1 = policy_calls w"
    using retry_output [of f 2 300 is_TikTokAPIError w] get_campaign_performance_same_output r
    by (simp add: f_def)
  have sp: "\<forall>c \<in> set cs. 0 < spend c" if "r = Inr (Some cs)" for cs
  proof -
    from that r have "retry f 2 300 is_TikTokAPIError w = (Inr (Some cs), w1)" by simp
    then have "\<forall>c \<in> set cs. MIN_SPEND < spend c"
      unfolding f_def by (rule retry_result [rotated]) (rule get_campaign_performance_spend)
    then show ?thesis by (simp add: MIN_SPEND_def)
  qed
  show ?thesis
  proof (cases r)
    case (Inl e)
    with r w1 assms show ?thesis
      by (simp add: main_from_step2_def print_line_def f_def [symmetric])
  next
    case (Inr v)
    show ?thesis
    proof (cases v)
      case None
      with Inr r w1 assms show ?thesis
        by (simp add: main_from_step2_def print_line_def f_def [symmetric])
    next
      case (Some cs)
      have "\<forall>p \<in> set (policy_calls (process_campaigns depth E cs w1)). policy_call_ok p"
        using process_campaigns_policy_calls [of cs w1 depth E] sp Inr Some w1 assms by simp
      with Inr Some r w1 assms show ?thesis
        by (simp add: main_from_step2_def print_line_def f_def [symmetric])
    qed
  qed
qed

theorem policy_calls_invariant_witness:
  "policy_calls cached_world = [] \<and>
   policy_calls (snd (main_from_step2 3
     (sample_env [campaign_entry ''A'' (JNum 80)] [stat_row ''A'' 100 200]) cached_world)) =
   [CalculateRoas (sample_campaign ''A'' (JNum 80)), CalculateAdjustmentFactor 2,
    CalculateNewBudget (JNum 80) (1 / 3)] \<and>
   policy_call_ok (CalculateRoas (sample_campaign ''A'' (JNum 80))) \<and>
   policy_call_ok (CalculateNewBudget (JNum 80) (1 / 3))"
  using policy_calls_invariant [of cached_world 3
      "sample_env [campaign_entry ''A'' (JNum 80)] [stat_row ''A'' 100 200]"]
  by (simp add: eval_nat_numeral api_eval main_eval cached_world_def fresh_world_def
      sample_env_def campaign_entry_def ok_response_def stat_row_def sample_campaign_def)

text \<open>
  C4, as the claim states it, fails: the platform lists the campaign A with no budget
  and reports a spend of 100 for it; the run calls \<open>calculate_roas\<close> on the campaign,
  whose budget is \<^verbatim>\<open>None\<close>, and \<open>calculate_adjustment_factor\<close> on its ROAS, before it
  skips the campaign.
\<close>

theorem policy_calls_unknown_budget:
  "policy_calls (snd (main_from_step2 3
     (sample_env [campaign_entry ''A'' JNull] [stat_row ''A'' 100 200]) cached_world)) =
   [CalculateRoas (sample_campaign ''A'' JNull), CalculateAdjustmentFactor 2] \<and>
   budget (sample_campaign ''A'' JNull) = JNull"
  by (simp add: eval_nat_numeral api_eval main_eval cached_world_def fresh_world_def
      sample_env_def campaign_entry_def ok_response_def stat_row_def sample_campaign_def)

lemma process_campaigns_failure:
  assumes "process_campaign_body depth E c (process_campaigns depth E before w) = (Inl e, w1)"
  shows "(if is_TikTokAPIError e then ErrorUpdatingLine (campaign_id c) e
          else UnexpectedErrorLine (campaign_id c) e)
           \<in> set (stdout (process_campaigns depth E (before @ c # after) w))"
proof -
  define wb where "wb = process_campaigns depth E before w"
  define l where "l = (if is_TikTokAPIError e then ErrorUpdatingLine (campaign_id c) e
            else UnexpectedErrorLine (campaign_id c) e)"
  have "l \<in> set (stdout (process_campaign depth E c wb))"
    using assms by (simp add: process_campaign_def print_line_def wb_def l_def)
  moreover have "process_campaigns depth E (before @ c # after) w =
                 process_campaigns depth E after (process_campaign depth E c wb)"
    by (simp add: process_campaigns_append wb_def)
  ultimately have "l \<in> set (stdout (process_campaigns depth E (before @ c # after) w))"
    using process_campaigns_stdout(2) [of "process_campaign depth E c wb" depth E after]
    by (simp only: subsetD)
  then show ?thesis by (simp add: l_def)
qed

lemma update_failure_fails_body:
  assumes "calculate_roas c = Inr roas" and "number_of (budget c) = Some b"
    and "calculate_new_budget b (calculate_adjustment_factor roas) \<noteq> b"
    and "retry (update_campaign_budget depth E (campaign_id c)
                  (calculate_new_budget b (calculate_adjustment_factor roas)))
           2 300 is_TikTokAPIError (update_state c roas w) = (Inl e, w1)"
  shows "process_campaign_body depth E c w = (Inl e, w1)"
proof -
  have "budget c \<noteq> JNull" using assms(2) by (auto simp: number_of_def)
  with assms show ?thesis
    by (simp add: process_campaign_body_def Let_def update_state_def)
qed

text \<open>
  C6: the loop prints exactly one status line for every campaign of the list, in the
  order of the list, so no campaign is left out; and when the update of the budget of
  one campaign fails with the exception \<open>e\<close> once its retries are used up, the lines
  printed at the end of the loop have the error line of that campaign with \<open>e\<close>.
\<close>

theorem process_campaigns_update_failure:
  assumes "calculate_roas c = Inr roas" and "number_of (budget c) = Some b"
    and "calculate_new_budget b (calculate_adjustment_factor roas) \<noteq> b"
    and "retry (update_campaign_budget depth E (campaign_id c)
                  (calculate_new_budget b (calculate_adjustment_factor roas)))
           2 300 is_TikTokAPIError
           (update_state c roas (process_campaigns depth E before w)) = (Inl e, w1)"
  shows "statuses (stdout (process_campaigns depth E (before @ c # after) w)) =
           statuses (stdout w) @ map campaign_id (before @ c # after) \<and>
         (if is_TikTokAPIError e then ErrorUpdatingLine (campaign_id c) e
          else UnexpectedErrorLine (campaign_id c) e)
           \<in> set (stdout (process_campaigns depth E (before @ c # after) w))"
  using process_campaigns_failure [OF update_failure_fails_body [OF assms]]
    process_campaigns_stdout(1) by blast

theorem process_campaigns_update_failure_witness:
  "calculate_roas (sample_campaign ''A'' (JNum 80)) = Inr 2 \<and>
   number_of (budget (sample_campaign ''A'' (JNum 80))) = Some 80 \<and>
   calculate_new_budget 80 (calculate_adjustment_factor 2) \<noteq> 80 \<and>
   retry (update_campaign_budget 3 failing_update_env
            (campaign_id (sample_campaign ''A'' (JNum 80)))
            (calculate_new_budget 80 (calculate_adjustment_factor 2)))
     2 300 is_TikTokAPIError
     (update_state (sample_campaign ''A'' (JNum 80)) 2
        (process_campaigns 3 failing_update_env [] cached_world)) =
     (Inl update_timed_out,
      cached_world\<lparr>clock := 600, requests_made := 3,
        stdout := [RetryingLine update_timed_out 300 1 2,
                   RetryingLine update_timed_out 300 2 2],
        policy_calls := [CalculateRoas (sample_campaign ''A'' (JNum 80)),
                         CalculateAdjustmentFactor 2,
                         CalculateNewBudget (JNum 80) (1 / 3)]\<rparr>) \<and>
   stdout (process_campaigns 3 failing_update_env
             ([] @ sample_campaign ''A'' (JNum 80) # [sample_campaign ''B'' (JNum 80)])
             cached_world) =
     [RetryingLine update_timed_out 300 1 2, RetryingLine update_timed_out 300 2 2,
      ErrorUpdatingLine (JStr ''A'') update_timed_out,
      UpdatedLine (JStr ''B'') (JNum 80) (320 / 3)] \<and>
   statuses (stdout (process_campaigns 3 failing_update_env
             ([] @ sample_campaign ''A'' (JNum 80) # [sample_campaign ''B'' (JNum 80)])
             cached_world)) = [JStr ''A'', JStr ''B'']"
proof -
  have h1: "calculate_roas (sample_campaign ''A'' (JNum 80)) = Inr 2"
    by (simp add: calculate_roas_def sample_campaign_def)
  have h2: "number_of (budget (sample_campaign ''A'' (JNum 80))) = Some 80"
    by (simp add: number_of_def sample_campaign_def)
  have h3: "calculate_new_budget 80 (calculate_adjustment_factor 2) \<noteq> 80"
    by (simp add: main_eval)
  have h4: "retry (update_campaign_budget 3 failing_update_env
            (campaign_id (sample_campaign ''A'' (JNum 80)))
            (calculate_new_budget 80 (calculate_adjustment_factor 2)))
     2 300 is_TikTokAPIError
     (update_state (sample_campaign ''A'' (JNum 80)) 2
        (process_campaigns 3 failing_update_env [] cached_world)) =
     (Inl update_timed_out,
      cached_world\<lparr>clock := 600, requests_made := 3,
        stdout := [RetryingLine update_timed_out 300 1 2,
                   RetryingLine update_timed_out 300 2 2],
        policy_calls := [CalculateRoas (sample_campaign ''A'' (JNum 80)),
                         CalculateAdjustmentFactor 2,
                         CalculateNewBudget (JNum 80) (1 / 3)]\<rparr>)"
    by (simp add: eval_nat_numeral api_eval main_eval update_state_def cached_world_def
        fresh_world_def failing_update_env_def sample_campaign_def update_timed_out_def)
  have s: "stdout (process_campaigns 3 failing_update_env
             ([] @ sample_campaign ''A'' (JNum 80) # [sample_campaign ''B'' (JNum 80)])
             cached_world) =
     [RetryingLine update_timed_out 300 1 2, RetryingLine update_timed_out 300 2 2,
      ErrorUpdatingLine (JStr ''A'') update_timed_out,
      UpdatedLine (JStr ''B'') (JNum 80) (320 / 3)]"
    by (simp add: eval_nat_numeral api_eval main_eval cached_world_def fresh_world_def
        failing_update_env_def sample_campaign_def update_timed_out_def)
  have t: "statuses (stdout (process_campaigns 3 failing_update_env
             ([] @ sample_campaign ''A'' (JNum 80) # [sample_campaign ''B'' (JNum 80)])
             cached_world)) =
           statuses (stdout cached_world) @
             map campaign_id
               ([] @ sample_campaign ''A'' (JNum 80) # [sample_campaign ''B'' (JNum 80)])"
    using process_campaigns_update_failure
      [OF h1 h2 h3 h4, of "[sample_campaign ''B'' (JNum 80)]"]
    by (rule conjunct1)
  have c: "statuses (stdout cached_world) @
             map campaign_id
               ([] @ sample_campaign ''A'' (JNum 80) # [sample_campaign ''B'' (JNum 80)]) =
           [JStr ''A'', JStr ''B'']"
    by (simp add: statuses_Nil sample_campaign_def cached_world_def fresh_world_def)
  from t c have "statuses (stdout (process_campaigns 3 failing_update_env
             ([] @ sample_campaign ''A'' (JNum 80) # [sample_campaign ''B'' (JNum 80)])
             cached_world)) = [JStr ''A'', JStr ''B'']"
    by (rule trans)
  with h1 h2 h3 h4 s show ?thesis by blast
qed

end
